theory Spec2Isabelle
  imports Main "HOL-Library.Sublist"
begin

section \<open>MessageDict upload script (upload.py)\<close>

text \<open>
  A shallow embedding of \<^verbatim>\<open>upload.py\<close>. Python strings are modelled as
  \<^typ>\<open>string\<close>; a \<^typ>\<open>char\<close> stands for a code point below 256, so the
  character tests below are the ones Python applies to that range. Exceptions are
  values: a computation that may raise returns \<open>exn + 'a\<close>. Console output
  written with \<^verbatim>\<open>print\<close> has no influence on any result and is left out; every
  other effect (reading the terminal, running a shell command, an HTTP request,
  reading and writing files) is explicit.
\<close>

subsection \<open>Strings\<close>

definition startswith :: "string \<Rightarrow> string \<Rightarrow> bool" where
  "startswith s p = prefix p s"

definition contains :: "string \<Rightarrow> string \<Rightarrow> bool" where
  \<comment> \<open>\<^verbatim>\<open>x in s\<close>\<close>
  "contains x s = sublist x s"

definition isspace :: "char \<Rightarrow> bool" where
  \<comment> \<open>\<^verbatim>\<open>str.isspace\<close> and the class \<^verbatim>\<open>\s\<close> of \<^verbatim>\<open>re\<close>, on code points below 256\<close>
  "isspace c = (c \<in> set [CHR 0x09, CHR 0x0A, CHR 0x0B, CHR 0x0C, CHR 0x0D,
                          CHR 0x1C, CHR 0x1D, CHR 0x1E, CHR 0x1F, CHR 0x20,
                          CHR 0x85, CHR 0xA0])"

definition strip :: "string \<Rightarrow> string" where
  "strip s = rev (dropWhile isspace (rev (dropWhile isspace s)))"

definition lower_char :: "char \<Rightarrow> char" where
  "lower_char c =
     (let n = (of_char c :: nat)
      in if (65 \<le> n \<and> n \<le> 90) \<or> (192 \<le> n \<and> n \<le> 222 \<and> n \<noteq> 215)
         then char_of (n + 32) else c)"

definition lower :: "string \<Rightarrow> string" where
  "lower s = map lower_char s"

subsection \<open>Exceptions, the terminal and the outside world\<close>

datatype exn_kind =
    SystemExit | EOFError | ValueError | OSError | RequestException
  | JSONDecodeError | AttributeError | KeyError | TypeError | TemplateError

type_synonym exn = "exn_kind \<times> string"

datatype json =
    JNull | JBool bool | JNum int | JStr string | JArr "json list" | JObj "(string \<times> json) list"

record http_request =
  req_method :: string
  req_url :: string
  req_headers :: "(string \<times> string) list"
  req_json :: "(string \<times> json) list option"  \<comment> \<open>the \<^verbatim>\<open>json=\<close> argument, a dict\<close>
  req_files :: "(string \<times> string \<times> string) option"
    \<comment> \<open>the \<^verbatim>\<open>files=\<close> argument: name, path of the open file, content type\<close>

record response =
  status_code :: int
  body_json :: "json option"  \<comment> \<open>\<^verbatim>\<open>None\<close> when the body is not JSON: \<^verbatim>\<open>.json()\<close> raises\<close>
  text_body :: string  \<comment> \<open>\<^verbatim>\<open>.text\<close>\<close>
  content :: string

record proc =
  returncode :: int
  stdout :: string
  stderr :: string

datatype event =
    Asked string string  \<comment> \<open>\<^verbatim>\<open>input(prompt)\<close> returned a line\<close>
  | AskedEOF string      \<comment> \<open>\<^verbatim>\<open>input(prompt)\<close> found the terminal closed\<close>
  | Ran string           \<comment> \<open>a shell command was run\<close>
  | Requested http_request

type_synonym files = "string \<rightharpoonup> string"

record world =
  stdin :: "string list"  \<comment> \<open>the lines the user will still type\<close>
  files :: files          \<comment> \<open>the files the script reads and writes, by path\<close>
  trace :: "event list"   \<comment> \<open>what the run has done so far, oldest first\<close>

record parse_result =
  scheme :: string
  netloc :: string

text \<open>
  What the script cannot compute by itself: library functions and the answers of
  the shell and of the network. An answer may depend on everything done before
  (the trace), and a shell command may change the files.
\<close>

record env =
  urlparse :: "string \<Rightarrow> exn + parse_result"
    \<comment> \<open>\<^verbatim>\<open>urllib.parse.urlparse\<close>: the two fields the script reads\<close>
  shell :: "string \<Rightarrow> event list \<Rightarrow> files \<Rightarrow> (exn + proc) \<times> files"
    \<comment> \<open>\<^verbatim>\<open>subprocess.run(cmd, shell=True, capture_output=True, text=True)\<close>\<close>
  http :: "http_request \<Rightarrow> event list \<Rightarrow> exn + response"
    \<comment> \<open>\<^verbatim>\<open>requests.get\<close>, \<^verbatim>\<open>requests.put\<close>, \<^verbatim>\<open>requests.post\<close>\<close>
  b64encode :: "string \<Rightarrow> string"
  qr_image :: "string \<Rightarrow> exn + string"
    \<comment> \<open>the PNG bytes the \<^verbatim>\<open>qrcode\<close> library renders for a text\<close>
  tmp_name :: "files \<Rightarrow> exn + string"
    \<comment> \<open>the path \<^verbatim>\<open>tempfile.NamedTemporaryFile\<close> picks, if it can create a file\<close>
  os_linesep :: string
    \<comment> \<open>\<^verbatim>\<open>os.linesep\<close>\<close>
  GITHUB_TOKEN :: "string option"
    \<comment> \<open>the module-level global, read once when the module is loaded\<close>

definition input :: "string \<Rightarrow> world \<Rightarrow> (exn + string) \<times> world" where
  "input prompt w =
     (case stdin w of
        [] \<Rightarrow> (Inl (EOFError, ''EOF when reading a line''),
               w\<lparr>trace := trace w @ [AskedEOF prompt]\<rparr>)
      | l # ls \<Rightarrow> (Inr l, w\<lparr>stdin := ls, trace := trace w @ [Asked prompt l]\<rparr>))"

type_synonym shell_oracle = "string \<Rightarrow> event list \<Rightarrow> files \<Rightarrow> (exn + proc) \<times> files"
type_synonym http_oracle = "http_request \<Rightarrow> event list \<Rightarrow> exn + response"

definition subprocess_run :: "shell_oracle \<Rightarrow> string \<Rightarrow> world \<Rightarrow> (exn + proc) \<times> world" where
  "subprocess_run sh cmd w =
     (let (r, fs) = sh cmd (trace w) (files w)
      in (r, w\<lparr>files := fs, trace := trace w @ [Ran cmd]\<rparr>))"

definition run_command :: "shell_oracle \<Rightarrow> string \<Rightarrow> bool \<Rightarrow> world \<Rightarrow> (exn + string) \<times> world" where
  "run_command sh cmd check w =
     (case subprocess_run sh cmd w of
        (Inl e, w') \<Rightarrow> (Inl e, w')
      | (Inr result, w') \<Rightarrow>
          if check \<and> returncode result \<noteq> 0 then (Inl (SystemExit, ''1''), w')
          else (Inr (strip (stdout result)), w'))"

definition request :: "http_oracle \<Rightarrow> http_request \<Rightarrow> world \<Rightarrow> (exn + response) \<times> world" where
  "request net rq w = (net rq (trace w), w\<lparr>trace := trace w @ [Requested rq]\<rparr>)"

definition read_file :: "string \<Rightarrow> world \<Rightarrow> exn + string" where
  \<comment> \<open>\<^verbatim>\<open>open(path).read()\<close>\<close>
  "read_file path w =
     (case files w path of
        None \<Rightarrow> (Inl (OSError, ''No such file or directory''))
      | Some data \<Rightarrow> Inr data)"

subsection \<open>Link Validator\<close>

definition token_message :: string where
  "token_message = ''This looks like a GitHub token, not a shortcut URL. '' @
     ''Please enter the iCloud Shortcuts URL (e.g., https://www.icloud.com/shortcuts/...)''"

definition validate_url ::
  "(string \<Rightarrow> exn + parse_result) \<Rightarrow> string \<Rightarrow> world \<Rightarrow> (bool \<times> string option) \<times> world" where
  \<comment> \<open>the first argument is \<^verbatim>\<open>urlparse\<close>\<close>
  "validate_url parse url w =
     (if url = [] then ((False, Some ''URL is empty''), w)
      else if startswith url ''github_pat_'' \<or> startswith url ''ghp_''
      then ((False, Some token_message), w)
      else
        \<comment> \<open>the \<^verbatim>\<open>try\<close> block: every \<^verbatim>\<open>Exception\<close> raised inside becomes a rejection\<close>
        (case parse url of
           Inl e \<Rightarrow> ((False, Some (''Invalid URL: '' @ snd e)), w)
         | Inr parsed \<Rightarrow>
             if scheme parsed = [] \<or> netloc parsed = []
             then ((False, Some ''Invalid URL format. Please include http:// or https://''), w)
             else if \<not> contains ''icloud.com/shortcuts'' (lower url)
                     \<and> \<not> contains ''shortcuts'' (lower url)
             then (case input ''   Continue anyway? (y/n): '' w of
                     (Inl e, w') \<Rightarrow> ((False, Some (''Invalid URL: '' @ snd e)), w')
                   | (Inr response, w') \<Rightarrow>
                       if lower (strip response) \<noteq> ''y''
                       then ((False, Some ''URL validation cancelled by user''), w')
                       else ((True, None), w'))
             else ((True, None), w)))"

subsection \<open>Regular expressions\<close>

text \<open>
  The part of Python's \<^verbatim>\<open>re\<close> that the four patterns of the script use. A
  backtracking matcher tries alternatives in a fixed order and takes the first
  that lets the whole pattern succeed; \<open>matches\<close> lists all the ways a pattern
  matches at the start of a string in that order, each with the text left over
  and the groups captured, so the match Python reports is the head of the list.
\<close>

datatype cclass =
    Only "char list"    \<comment> \<open>\<^verbatim>\<open>[abc]\<close>\<close>
  | Except "char list"  \<comment> \<open>\<^verbatim>\<open>[^abc]\<close>\<close>
  | NotSpace            \<comment> \<open>\<^verbatim>\<open>[^\s]\<close>\<close>

fun in_class :: "cclass \<Rightarrow> char \<Rightarrow> bool" where
  "in_class (Only cs) c = (c \<in> set cs)"
| "in_class (Except cs) c = (c \<notin> set cs)"
| "in_class NotSpace c = (\<not> isspace c)"

datatype regex =
    Lit string              \<comment> \<open>literal text\<close>
  | One cclass              \<comment> \<open>one character of a class\<close>
  | Rep bool nat cclass     \<comment> \<open>\<^verbatim>\<open>+\<close>, \<^verbatim>\<open>*\<close> (greedy) or \<^verbatim>\<open>+?\<close> (lazy) of a class: greedy?, least count\<close>
  | Opt regex               \<comment> \<open>\<^verbatim>\<open>(?:r)?\<close> and \<^verbatim>\<open>r?\<close>\<close>
  | Group nat regex         \<comment> \<open>capturing group number n\<close>
  | Eol                     \<comment> \<open>\<^verbatim>\<open>$\<close>\<close>
  | Cat regex regex

type_synonym groups = "(nat \<times> string) list"

fun matches :: "regex \<Rightarrow> string \<Rightarrow> groups \<Rightarrow> (string \<times> groups) list" where
  "matches (Lit l) s g = (if prefix l s then [(drop (length l) s, g)] else [])"
| "matches (One cl) s g = (case s of [] \<Rightarrow> [] | c # cs \<Rightarrow> if in_class cl c then [(cs, g)] else [])"
| "matches (Rep greedy least cl) s g =
     (let most = length (takeWhile (in_class cl) s);
          counts = [least ..< Suc most]
      in map (\<lambda>n. (drop n s, g)) (if greedy then rev counts else counts))"
| "matches (Opt r) s g = matches r s g @ [(s, g)]"
| "matches (Group n r) s g =
     map (\<lambda>(s', g'). (s', (n, take (length s - length s') s) # g')) (matches r s g)"
| "matches Eol s g = (if s = [] \<or> s = [CHR 0x0A] then [(s, g)] else [])"
| "matches (Cat r1 r2) s g = concat (map (\<lambda>(s', g'). matches r2 s' g') (matches r1 s g))"

fun seq :: "regex list \<Rightarrow> regex" where
  "seq [] = Lit []"
| "seq [r] = r"
| "seq (r # rs) = Cat r (seq rs)"

record match_obj =
  before :: string   \<comment> \<open>the text in front of the match\<close>
  matched :: string  \<comment> \<open>group 0\<close>
  captured :: groups
  after :: string    \<comment> \<open>the text behind the match\<close>

definition group :: "match_obj \<Rightarrow> nat \<Rightarrow> string" where
  \<comment> \<open>a group that took no part in the match is not used by the script\<close>
  "group m n = (if n = 0 then matched m else case map_of (captured m) n of Some t \<Rightarrow> t | None \<Rightarrow> [])"

definition match_here :: "regex \<Rightarrow> bool \<Rightarrow> string \<Rightarrow> (string \<times> groups) option" where
  \<comment> \<open>the first way to match at the start of \<open>s\<close>; with \<open>must_advance\<close>, the first that is not empty\<close>
  "match_here r must_advance s =
     List.find (\<lambda>(s', g). \<not> must_advance \<or> s' \<noteq> s) (matches r s [])"

fun search_from :: "regex \<Rightarrow> string \<Rightarrow> string \<Rightarrow> match_obj option" where
  "search_from r pre s =
     (case match_here r False s of
        Some (s', g) \<Rightarrow>
          Some \<lparr>before = pre, matched = take (length s - length s') s, captured = g, after = s'\<rparr>
      | None \<Rightarrow> (case s of [] \<Rightarrow> None | c # cs \<Rightarrow> search_from r (pre @ [c]) cs))"

definition re_search :: "regex \<Rightarrow> string \<Rightarrow> match_obj option" where
  "re_search r s = search_from r [] s"

subsection \<open>Remote Metadata Resolver\<close>

definition repo_pattern_1 :: regex where
  \<comment> \<open>\<^verbatim>\<open>github\.com[:/]([^/]+)/([^/]+?)(?:\.git)?$\<close>\<close>
  "repo_pattern_1 = seq [Lit ''github.com'', One (Only '':/''),
     Group 1 (Rep True 1 (Except ''/'')), Lit ''/'',
     Group 2 (Rep False 1 (Except ''/'')), Opt (Lit ''.git''), Eol]"

definition repo_pattern_2 :: regex where
  \<comment> \<open>\<^verbatim>\<open>github\.com[:/]([^/]+)/([^/]+?)(?:\.git)?/?$\<close>\<close>
  "repo_pattern_2 = seq [Lit ''github.com'', One (Only '':/''),
     Group 1 (Rep True 1 (Except ''/'')), Lit ''/'',
     Group 2 (Rep False 1 (Except ''/'')), Opt (Lit ''.git''), Opt (Lit ''/''), Eol]"

fun first_repo_match :: "regex list \<Rightarrow> string \<Rightarrow> string option" where
  \<comment> \<open>the loop over the patterns\<close>
  "first_repo_match [] remote_url = None"
| "first_repo_match (pattern # patterns) remote_url =
     (case re_search pattern remote_url of
        Some m \<Rightarrow> Some (group m 1 @ ''/'' @ group m 2)
      | None \<Rightarrow> first_repo_match patterns remote_url)"

definition get_github_repo :: "shell_oracle \<Rightarrow> world \<Rightarrow> (exn + string) \<times> world" where
  "get_github_repo sh w =
     (case run_command sh ''git remote get-url origin'' False w of
        (Inl e, w') \<Rightarrow> (Inl e, w')
      | (Inr remote_url, w') \<Rightarrow>
          if remote_url = [] then (Inl (SystemExit, ''1''), w')
          else (case first_repo_match [repo_pattern_1, repo_pattern_2] remote_url of
                  Some repo \<Rightarrow> (Inr repo, w')
                | None \<Rightarrow> (Inl (SystemExit, ''1''), w')))"

subsection \<open>Remote Asset Publisher\<close>

fun truthy :: "json \<Rightarrow> bool" where
  \<comment> \<open>the truth value Python gives a parsed JSON value\<close>
  "truthy JNull = False"
| "truthy (JBool b) = b"
| "truthy (JNum n) = (n \<noteq> 0)"
| "truthy (JStr s) = (s \<noteq> [])"
| "truthy (JArr xs) = (xs \<noteq> [])"
| "truthy (JObj kvs) = (kvs \<noteq> [])"

definition response_json :: "response \<Rightarrow> exn + json" where
  \<comment> \<open>\<^verbatim>\<open>response.json()\<close>\<close>
  "response_json r =
     (case body_json r of
        None \<Rightarrow> Inl (JSONDecodeError, ''Expecting value'')
      | Some j \<Rightarrow> Inr j)"

definition dict_get :: "json \<Rightarrow> string \<Rightarrow> exn + json" where
  \<comment> \<open>\<^verbatim>\<open>j.get(key)\<close>: only a dict has the method; a missing key gives \<^verbatim>\<open>None\<close>\<close>
  "dict_get j key =
     (case j of
        JObj kvs \<Rightarrow> Inr (case map_of kvs key of Some v \<Rightarrow> v | None \<Rightarrow> JNull)
      | _ \<Rightarrow> Inl (AttributeError, ''object has no attribute get''))"

definition basename :: "string \<Rightarrow> string" where
  \<comment> \<open>\<^verbatim>\<open>os.path.basename\<close> (POSIX): what follows the last slash\<close>
  "basename p = rev (takeWhile (\<lambda>c. c \<noteq> CHR ''/'') (rev p))"

fun split :: "char \<Rightarrow> string \<Rightarrow> string list" where
  \<comment> \<open>\<^verbatim>\<open>s.split(sep)\<close> for a separator of one character\<close>
  "split sep [] = [[]]"
| "split sep (c # cs) =
     (if c = sep then [] # split sep cs
      else (case split sep cs of [] \<Rightarrow> [[c]] | p # ps \<Rightarrow> (c # p) # ps))"

definition default_branch_cmd :: string where
  "default_branch_cmd =
     ''git symbolic-ref refs/remotes/origin/HEAD | sed '' @ [CHR 0x27] @
     ''s@^refs/remotes/origin/@@'' @ [CHR 0x27]"

definition detect_default_branch :: "shell_oracle \<Rightarrow> string \<Rightarrow> world \<Rightarrow> string \<times> world" where
  \<comment> \<open>lines 209 to 214; the bare \<^verbatim>\<open>except\<close> catches whatever the command raises\<close>
  "detect_default_branch sh branch w =
     (case run_command sh default_branch_cmd False w of
        (Inl e, w') \<Rightarrow> (branch, w')
      | (Inr default_branch, w') \<Rightarrow> (if default_branch = [] then branch else default_branch, w'))"

definition api_headers :: "string \<Rightarrow> (string \<times> string) list" where
  "api_headers token =
     [(''Authorization'', ''Bearer '' @ token), (''Accept'', ''application/vnd.github.v3+json'')]"

definition upload_qr_to_github ::
  "env \<Rightarrow> string \<Rightarrow> string option \<Rightarrow> string \<Rightarrow> string \<Rightarrow> world \<Rightarrow> (exn + string option) \<times> world" where
  "upload_qr_to_github E repo token qr_path branch w =
     (case token of
        None \<Rightarrow> (Inr None, w)
      | Some tok \<Rightarrow>
     if tok = [] then (Inr None, w)
     else
       let (default_branch, w1) = detect_default_branch (shell E) branch w in
       case read_file qr_path w1 of
         Inl e \<Rightarrow> (Inl e, w1)
       | Inr data \<Rightarrow>
       let content = b64encode E data;
           asset_name = basename qr_path;
           file_path = ''assets/'' @ asset_name;
           url = ''https://api.github.com/repos/'' @ repo @ ''/contents/'' @ file_path;
           headers = api_headers tok
       in
       case request (http E) \<lparr>req_method = ''GET'', req_url = url, req_headers = headers,
                        req_json = None, req_files = None\<rparr> w1 of
         (Inl e, w2) \<Rightarrow> (Inl e, w2)
       | (Inr response, w2) \<Rightarrow>
       case (if status_code response = 200
             then (case response_json response of
                     Inl e \<Rightarrow> Inl e
                   | Inr j \<Rightarrow> dict_get j ''sha'')
             else Inr JNull) of
         Inl e \<Rightarrow> (Inl e, w2)
       | Inr sha \<Rightarrow>
       let data = [(''message'', JStr (''Add QR code: '' @ asset_name)),
                   (''content'', JStr content),
                   (''branch'', JStr default_branch)]
                  @ (if truthy sha then [(''sha'', sha)] else [])
       in
       case request (http E) \<lparr>req_method = ''PUT'', req_url = url, req_headers = headers,
                        req_json = Some data, req_files = None\<rparr> w2 of
         (Inl e, w3) \<Rightarrow> (Inl e, w3)
       | (Inr response, w3) \<Rightarrow>
       if status_code response = 200 \<or> status_code response = 201
       then (case response_json response of
               Inl e \<Rightarrow> (Inl e, w3)
             | Inr file_data \<Rightarrow>
                 (case split (CHR ''/'') repo of
                    [owner, repo_name] \<Rightarrow>
                      (Inr (Some (''https://raw.githubusercontent.com/'' @ owner @ ''/'' @
                                  repo_name @ ''/'' @ default_branch @ ''/'' @ file_path)), w3)
                  | _ \<Rightarrow> (Inl (ValueError, ''wrong number of values to unpack''), w3)))
       else (Inr None, w3))"

subsection \<open>Replacement templates and \<^verbatim>\<open>re.sub\<close>\<close>

datatype titem =
    TLit string   \<comment> \<open>literal text\<close>
  | TGroup nat    \<comment> \<open>a reference to a group\<close>

definition bs :: char where
  \<comment> \<open>the backslash\<close>
  "bs = CHR 0x5C"

definition dq :: char where
  \<comment> \<open>the double quote\<close>
  "dq = CHR 0x22"

definition isdigit :: "char \<Rightarrow> bool" where
  "isdigit c = (c \<in> set ''0123456789'')"

definition isoctdigit :: "char \<Rightarrow> bool" where
  "isoctdigit c = (c \<in> set ''01234567'')"

definition isasciiletter :: "char \<Rightarrow> bool" where
  "isasciiletter c = (c \<in> set ''abcdefghijklmnopqrstuvwxyzABCDEFGHIJKLMNOPQRSTUVWXYZ'')"

definition digit_val :: "char \<Rightarrow> nat" where
  "digit_val c = of_char c - 48"

definition int_of_digits :: "string \<Rightarrow> nat" where
  \<comment> \<open>\<^verbatim>\<open>int(s)\<close> for a string of decimal digits\<close>
  "int_of_digits s = foldl (\<lambda>n c. 10 * n + digit_val c) 0 s"

definition template_error :: "string \<Rightarrow> exn + 'a" where
  "template_error msg = Inl (TemplateError, msg)"

definition simple_escape :: "char \<Rightarrow> char option" where
  \<comment> \<open>the table \<^verbatim>\<open>ESCAPES\<close>\<close>
  "simple_escape c = map_of
     [(CHR ''a'', CHR 0x07), (CHR ''b'', CHR 0x08), (CHR ''f'', CHR 0x0C), (CHR ''n'', CHR 0x0A),
      (CHR ''r'', CHR 0x0D), (CHR ''t'', CHR 0x09), (CHR ''v'', CHR 0x0B), (bs, bs)] c"

definition escape :: "nat \<Rightarrow> char \<Rightarrow> string \<Rightarrow> exn + (titem \<times> string)" where
  \<comment> \<open>one escape of a template: the character behind the backslash and the text
      behind it, for a pattern with \<open>n\<close> groups; gives the item and the text left\<close>
  "escape n c rest =
     (if c = CHR ''g'' then
        (case rest of
           [] \<Rightarrow> template_error ''missing <''
         | lt # rest1 \<Rightarrow>
             if lt \<noteq> CHR ''<'' then template_error ''missing <''
             else if CHR ''>'' \<notin> set rest1 then template_error ''missing >, unterminated name''
             else
               let name = takeWhile (\<lambda>x. x \<noteq> CHR ''>'') rest1;
                   rest2 = tl (dropWhile (\<lambda>x. x \<noteq> CHR ''>'') rest1)
               in if name = [] then template_error ''missing group name''
                  else if \<not> list_all isdigit name
                  then template_error ''bad character in group name or unknown group name''
                  else if int_of_digits name > n then template_error ''invalid group reference''
                  else Inr (TGroup (int_of_digits name), rest2))
      else if c = CHR ''0'' then
        (case rest of
           d1 # rest1 \<Rightarrow>
             if isoctdigit d1 then
               (case rest1 of
                  d2 # rest2 \<Rightarrow>
                    if isoctdigit d2
                    then Inr (TLit [char_of ((8 * digit_val d1 + digit_val d2) mod 256)], rest2)
                    else Inr (TLit [char_of (digit_val d1)], rest1)
                | [] \<Rightarrow> Inr (TLit [char_of (digit_val d1)], rest1))
             else Inr (TLit [char_of (0::nat)], rest)
         | [] \<Rightarrow> Inr (TLit [char_of (0::nat)], rest))
      else if isdigit c then
        (case rest of
           d1 # rest1 \<Rightarrow>
             if isdigit d1 then
               (case rest1 of
                  d2 # rest2 \<Rightarrow>
                    if isoctdigit c \<and> isoctdigit d1 \<and> isoctdigit d2 then
                      (let v = 64 * digit_val c + 8 * digit_val d1 + digit_val d2
                       in if v > 255 then template_error ''octal escape value outside of range''
                          else Inr (TLit [char_of v], rest2))
                    else if 10 * digit_val c + digit_val d1 > n
                    then template_error ''invalid group reference''
                    else Inr (TGroup (10 * digit_val c + digit_val d1), rest1)
                | [] \<Rightarrow>
                    if 10 * digit_val c + digit_val d1 > n
                    then template_error ''invalid group reference''
                    else Inr (TGroup (10 * digit_val c + digit_val d1), rest1))
             else if digit_val c > n then template_error ''invalid group reference''
             else Inr (TGroup (digit_val c), rest)
         | [] \<Rightarrow>
             if digit_val c > n then template_error ''invalid group reference''
             else Inr (TGroup (digit_val c), rest))
      else
        (case simple_escape c of
           Some x \<Rightarrow> Inr (TLit [x], rest)
         | None \<Rightarrow>
             if isasciiletter c then template_error ''bad escape''
             else Inr (TLit [bs, c], rest)))"

lemma length_tl_dropWhile: "length (tl (dropWhile P xs)) \<le> length xs"
  using length_dropWhile_le [of P xs] by simp

lemma escape_length: "escape n c rest = Inr (it, rest') \<Longrightarrow> length rest' \<le> length rest"
  using length_tl_dropWhile [of "\<lambda>x. x \<noteq> CHR ''>''" "tl rest"]
  by (auto simp: escape_def template_error_def Let_def
      split: if_splits list.splits option.splits)

function parse_template :: "nat \<Rightarrow> string \<Rightarrow> exn + titem list" where
  "parse_template n [] = Inr []"
| "parse_template n (c # cs) =
     (if c \<noteq> bs then
        (case parse_template n cs of
           Inl e \<Rightarrow> Inl e
         | Inr items \<Rightarrow> Inr (TLit [c] # items))
      else
        (case cs of
           [] \<Rightarrow> template_error ''bad escape (end of pattern)''
         | d # ds \<Rightarrow>
             (case escape n d ds of
                Inl e \<Rightarrow> Inl e
              | Inr (item, rest) \<Rightarrow>
                  (case parse_template n rest of
                     Inl e \<Rightarrow> Inl e
                   | Inr items \<Rightarrow> Inr (item # items)))))"
  by pat_completeness auto
termination
  by (relation "measure (\<lambda>(n, s). length s)") (auto dest: escape_length)

definition expand_template :: "titem list \<Rightarrow> match_obj \<Rightarrow> string" where
  "expand_template items m =
     concat (map (\<lambda>item. case item of TLit l \<Rightarrow> l | TGroup i \<Rightarrow> group m i) items)"

fun ngroups :: "regex \<Rightarrow> nat" where
  \<comment> \<open>the number of capturing groups of a pattern\<close>
  "ngroups (Group n r) = Suc (ngroups r)"
| "ngroups (Opt r) = ngroups r"
| "ngroups (Cat r1 r2) = ngroups r1 + ngroups r2"
| "ngroups r = 0"

lemma matches_suffix: "(s', g') \<in> set (matches r s g) \<Longrightarrow> suffix s' s"
proof (induction r arbitrary: s g s' g')
  case (Lit l)
  then show ?case by (auto simp: suffix_drop split: if_splits)
next
  case (One cl)
  then show ?case by (auto simp: suffix_ConsI split: list.splits if_splits)
next
  case (Rep greedy least cl)
  then show ?case by (auto simp: Let_def suffix_drop split: if_splits)
next
  case (Cat r1 r2)
  then show ?case by (fastforce intro: suffix_order.trans)
qed (auto split: if_splits)

lemma match_here_shorter:
  assumes "match_here r must_advance s = Some (s', g)"
  shows "s' = s \<or> length s' < length s" and "must_advance \<Longrightarrow> s' \<noteq> s"
proof -
  from assms have m: "(s', g) \<in> set (matches r s [])" and a: "\<not> must_advance \<or> s' \<noteq> s"
    by (auto simp: match_here_def find_Some_iff in_set_conv_nth)
  from matches_suffix [OF m] show "s' = s \<or> length s' < length s"
    by (auto simp: suffix_def)
  from a show "must_advance \<Longrightarrow> s' \<noteq> s"
    by simp
qed

lemma sub_from_decreases:
  assumes "match_here r must_advance s = Some x2" and "(s', g) = x2"
  shows "(s' = s \<longrightarrow> \<not> must_advance)
         \<and> (s' \<noteq> s \<longrightarrow> (must_advance \<longrightarrow> Suc (2 * length s') < 2 * length s)
                        \<and> (\<not> must_advance \<longrightarrow> length s' < length s))"
proof -
  from assms have "match_here r must_advance s = Some (s', g)"
    by simp
  from match_here_shorter [OF this] show ?thesis
    by auto
qed

function sub_from :: "regex \<Rightarrow> titem list \<Rightarrow> bool \<Rightarrow> string \<Rightarrow> string" where
  \<comment> \<open>the loop of \<^verbatim>\<open>re.sub\<close>: replace the leftmost match, go on behind it; after an
      empty match the next one at the same place must not be empty\<close>
  "sub_from r items must_advance s =
     (case match_here r must_advance s of
        Some (s', g) \<Rightarrow>
          expand_template items
            \<lparr>before = [], matched = take (length s - length s') s, captured = g, after = s'\<rparr>
          @ sub_from r items (s' = s) s'
      | None \<Rightarrow>
          (case s of
             [] \<Rightarrow> []
           | c # cs \<Rightarrow> c # sub_from r items False cs))"
  by pat_completeness auto
termination
proof (relation "measure (\<lambda>(r, items, must_advance, s). 2 * length s + (if must_advance then 0 else 1))",
    goal_cases)
  case 1
  then show ?case by simp
next
  case 2
  then show ?case by simp
next
  case prems: 3
  show ?case
    using sub_from_decreases [OF prems(1) prems(2)] by auto
qed

declare sub_from.simps [simp del]

definition re_sub :: "regex \<Rightarrow> string \<Rightarrow> string \<Rightarrow> exn + string" where
  \<comment> \<open>\<^verbatim>\<open>re.sub(pattern, repl, string)\<close>; the template is compiled before the search\<close>
  "re_sub r repl s =
     (case parse_template (ngroups r) repl of
        Inl e \<Rightarrow> Inl e
      | Inr items \<Rightarrow> Inr (sub_from r items False s))"

subsection \<open>Document Patcher\<close>

definition README_PATH :: string where
  "README_PATH = ''README.md''"

definition nl :: char where
  "nl = CHR 0x0A"

definition cr :: char where
  "cr = CHR 0x0D"

text \<open>
  The document is opened in text mode without a \<^verbatim>\<open>newline\<close> argument. Reading
  then turns every line end (CR LF, a lone CR, LF) into one line feed, and writing
  turns every line feed into the line separator of the platform
  (\<^verbatim>\<open>os.linesep\<close>, a parameter here). A file holds its content as characters.
\<close>

fun universal_newlines :: "string \<Rightarrow> string" where
  "universal_newlines [] = []"
| "universal_newlines [c] = [if c = cr then nl else c]"
| "universal_newlines (c # d # cs) =
     (if c = cr \<and> d = nl then nl # universal_newlines cs
      else if c = cr then nl # universal_newlines (d # cs)
      else c # universal_newlines (d # cs))"

definition write_newlines :: "string \<Rightarrow> string \<Rightarrow> string" where
  "write_newlines linesep s = concat (map (\<lambda>c. if c = nl then linesep else [c]) s)"

definition read_text :: "string \<Rightarrow> world \<Rightarrow> exn + string" where
  \<comment> \<open>what a file opened with \<^verbatim>\<open>open(path, 'r')\<close> delivers\<close>
  "read_text path w =
     (case read_file path w of
        Inl e \<Rightarrow> Inl e
      | Inr data \<Rightarrow> Inr (universal_newlines data))"

definition write_text :: "string \<Rightarrow> string \<Rightarrow> string \<Rightarrow> world \<Rightarrow> world" where
  \<comment> \<open>the file after \<^verbatim>\<open>open(path, 'w')\<close>, the writes and the close\<close>
  "write_text linesep path s w = w\<lparr>files := (files w)(path \<mapsto> write_newlines linesep s)\<rparr>"

fun readlines :: "string \<Rightarrow> string list" where
  \<comment> \<open>\<^verbatim>\<open>f.readlines()\<close> on the text read: the lines, each with its line feed\<close>
  "readlines [] = []"
| "readlines (c # cs) =
     (if c = nl then [c] # readlines cs
      else (case readlines cs of [] \<Rightarrow> [[c]] | l # ls \<Rightarrow> (c # l) # ls))"

definition writelines :: "string list \<Rightarrow> string" where
  "writelines ls = concat ls"

fun replace_line :: "(string \<Rightarrow> exn + string) \<Rightarrow> int \<Rightarrow> int \<Rightarrow> string list \<Rightarrow> exn + string list" where
  \<comment> \<open>the loop over \<^verbatim>\<open>enumerate(lines)\<close>, from index \<open>i\<close> on: the line whose number is
      \<open>line_number\<close> is replaced and the loop left\<close>
  "replace_line f line_number i [] = Inr []"
| "replace_line f line_number i (line # rest) =
     (if i + 1 = line_number then
        (case f line of
           Inl e \<Rightarrow> Inl e
         | Inr line' \<Rightarrow> Inr (line' # rest))
      else
        (case replace_line f line_number (i + 1) rest of
           Inl e \<Rightarrow> Inl e
         | Inr rest' \<Rightarrow> Inr (line # rest')))"

definition patch_document ::
  "string \<Rightarrow> regex \<Rightarrow> string \<Rightarrow> int \<Rightarrow> world \<Rightarrow> (exn + unit) \<times> world" where
  \<comment> \<open>what the two patchers share: read the lines, substitute in one, write all back\<close>
  "patch_document linesep pattern repl line_number w =
     (case read_text README_PATH w of
        Inl e \<Rightarrow> (Inl e, w)
      | Inr text \<Rightarrow>
          (case replace_line (re_sub pattern repl) line_number 0 (readlines text) of
             Inl e \<Rightarrow> (Inl e, w)
           | Inr lines \<Rightarrow> (Inr (), write_text linesep README_PATH (writelines lines) w)))"

definition link_pattern :: regex where
  \<comment> \<open>\<^verbatim>\<open>(\*\*Install MessageDict:\*\* )https://[^\s]+\<close>\<close>
  "link_pattern = seq [Group 1 (Lit ''**Install MessageDict:** ''), Lit ''https://'',
     Rep True 1 NotSpace]"

definition qr_pattern :: regex where
  \<comment> \<open>\<^verbatim>\<open>(<img src=")[^"]+(" alt="MessageDict QR Code"[^>]*>)\<close>\<close>
  "qr_pattern = seq [Group 1 (Lit (''<img src='' @ [dq])), Rep True 1 (Except [dq]),
     Group 2 (seq [Lit ([dq] @ '' alt='' @ [dq] @ ''MessageDict QR Code'' @ [dq]),
                   Rep True 0 (Except ''>''), Lit ''>''])]"

definition link_template :: "string \<Rightarrow> string" where
  \<comment> \<open>\<^verbatim>\<open>rf'\1{new_link}'\<close>\<close>
  "link_template new_link = [bs, CHR ''1''] @ new_link"

definition qr_template :: "string \<Rightarrow> string" where
  \<comment> \<open>\<^verbatim>\<open>rf'\1{new_qr_url}\2'\<close>\<close>
  "qr_template new_qr_url = [bs, CHR ''1''] @ new_qr_url @ [bs, CHR ''2'']"

definition replace_readme_link ::
  "string \<Rightarrow> string \<Rightarrow> int \<Rightarrow> world \<Rightarrow> (exn + unit) \<times> world" where
  "replace_readme_link linesep new_link line_number w =
     patch_document linesep link_pattern (link_template new_link) line_number w"

definition replace_readme_qr_code ::
  "string \<Rightarrow> string \<Rightarrow> int \<Rightarrow> world \<Rightarrow> (exn + unit) \<times> world" where
  "replace_readme_qr_code linesep new_qr_url line_number w =
     patch_document linesep qr_pattern (qr_template new_qr_url) line_number w"

subsection \<open>Sequencing\<close>

definition return :: "'a \<Rightarrow> world \<Rightarrow> (exn + 'a) \<times> world" where
  "return x w = (Inr x, w)"

definition raise :: "exn \<Rightarrow> world \<Rightarrow> (exn + 'a) \<times> world" where
  "raise e w = (Inl e, w)"

definition and_then ::
  "(world \<Rightarrow> (exn + 'a) \<times> world) \<Rightarrow> ('a \<Rightarrow> world \<Rightarrow> (exn + 'b) \<times> world)
   \<Rightarrow> world \<Rightarrow> (exn + 'b) \<times> world" where
  \<comment> \<open>one statement after another: an exception of the first skips the second\<close>
  "and_then m f w = (case m w of (Inl e, w') \<Rightarrow> (Inl e, w') | (Inr x, w') \<Rightarrow> f x w')"

definition int_space :: "char \<Rightarrow> bool" where
  \<comment> \<open>the blanks \<^verbatim>\<open>int\<close> skips around a number: those of \<^verbatim>\<open>strip\<close> but the four
      separators 28 to 31\<close>
  "int_space c = (c \<in> set [CHR 0x09, CHR 0x0A, CHR 0x0B, CHR 0x0C, CHR 0x0D, CHR 0x20,
                            CHR 0x85, CHR 0xA0])"

definition py_int :: "string \<Rightarrow> exn + int" where
  \<comment> \<open>\<^verbatim>\<open>int(s)\<close>: blanks around, a sign, decimal digits with single underscores between
      them, at most 4300 digits\<close>
  "py_int s =
     (let t = dropWhile int_space (rev (dropWhile int_space (rev s)));
          negative = (t \<noteq> [] \<and> hd t = CHR ''-'');
          body = (if t \<noteq> [] \<and> (hd t = CHR ''-'' \<or> hd t = CHR ''+'') then tl t else t);
          digits = filter (\<lambda>c. c \<noteq> CHR ''_'') body
      in if body = [] \<or> \<not> isdigit (hd body) \<or> \<not> isdigit (last body)
            \<or> \<not> list_all (\<lambda>c. isdigit c \<or> c = CHR ''_'') body
            \<or> sublist ''__'' body \<or> length digits > 4300
         then Inl (ValueError, ''invalid literal for int()'')
         else Inr ((if negative then -1 else 1) * int (int_of_digits digits)))"

subsection \<open>Version-Control Gateway, Artifact Fetcher, Visual Code Generator\<close>

definition pull_latest :: "shell_oracle \<Rightarrow> world \<Rightarrow> (exn + unit) \<times> world" where
  "pull_latest sh =
     and_then (run_command sh ''git fetch origin'' False) (\<lambda>_.
     and_then (run_command sh ''git branch --show-current'' False) (\<lambda>current_branch.
     and_then
       (if current_branch \<noteq> [] then return current_branch
        else and_then
          (run_command sh (''git symbolic-ref refs/remotes/origin/HEAD 2>/dev/null | sed ''
             @ [CHR 0x27] @ ''s@^refs/remotes/origin/@@'' @ [CHR 0x27]) False)
          (\<lambda>current_branch. return (if current_branch \<noteq> [] then current_branch else ''main'')))
       (\<lambda>current_branch.
     and_then
       (run_command sh (''git rev-list HEAD..origin/'' @ current_branch @ '' 2>/dev/null | wc -l'')
          False) (\<lambda>behind.
     let behind = (if behind \<noteq> [] then strip behind else ''0'') in
     if behind = [] then return ()
     else
       (case py_int behind of
          Inl e \<Rightarrow> raise e
        | Inr n \<Rightarrow>
            if n > 0 then
              and_then (input ''Do you want to pull the latest changes? (y/n): '') (\<lambda>response.
                if lower (strip response) = ''y''
                then and_then (run_command sh (''git pull origin '' @ current_branch) True)
                       (\<lambda>_. return ())
                else return ())
            else return ())))))"

definition write_file :: "string \<Rightarrow> string \<Rightarrow> world \<Rightarrow> (exn + unit) \<times> world" where
  \<comment> \<open>\<^verbatim>\<open>open(path, 'w').write(data)\<close>; writing itself is taken to succeed\<close>
  "write_file path data w = (Inr (), w\<lparr>files := (files w)(path \<mapsto> data)\<rparr>)"

definition download_file :: "http_oracle \<Rightarrow> string \<Rightarrow> string \<Rightarrow> world \<Rightarrow> (exn + unit) \<times> world" where
  "download_file net url output_path =
     and_then (request net \<lparr>req_method = ''GET'', req_url = url, req_headers = [],
                             req_json = None, req_files = None\<rparr>) (\<lambda>response.
       \<comment> \<open>\<^verbatim>\<open>raise_for_status\<close>\<close>
       if 400 \<le> status_code response \<and> status_code response < 600
       then raise (RequestException, ''HTTPError'')
       else write_file output_path (content response))"

definition generate_qr_code ::
  "(string \<Rightarrow> exn + string) \<Rightarrow> string \<Rightarrow> string \<Rightarrow> world \<Rightarrow> (exn + unit) \<times> world" where
  \<comment> \<open>the first argument renders the image\<close>
  "generate_qr_code render url output_path =
     (case render url of
        Inl e \<Rightarrow> raise e
      | Inr png \<Rightarrow> write_file output_path png)"

definition commit_and_push :: "shell_oracle \<Rightarrow> string \<Rightarrow> world \<Rightarrow> (exn + unit) \<times> world" where
  "commit_and_push sh commit_message =
     and_then (run_command sh ''git add .'' True) (\<lambda>_.
     and_then (run_command sh (''git commit -m '' @ [dq] @ commit_message @ [dq]) True) (\<lambda>_.
     and_then (run_command sh ''git push origin main || git push origin master'' True) (\<lambda>_.
     return ())))"

definition tag_command :: "string \<Rightarrow> string" where
  \<comment> \<open>\<^verbatim>\<open>f'git tag -a "{tag_name}" -m "{tag_name}"'\<close>\<close>
  "tag_command tag_name =
     ''git tag -a '' @ [dq] @ tag_name @ [dq] @ '' -m '' @ [dq] @ tag_name @ [dq]"

definition push_tag_command :: "string \<Rightarrow> string" where
  \<comment> \<open>\<^verbatim>\<open>f'git push origin "{tag_name}"'\<close>\<close>
  "push_tag_command tag_name = ''git push origin '' @ [dq] @ tag_name @ [dq]"

definition create_tag :: "shell_oracle \<Rightarrow> string \<Rightarrow> world \<Rightarrow> (exn + unit) \<times> world" where
  "create_tag sh tag_name =
     and_then (run_command sh (tag_command tag_name) True) (\<lambda>_.
     and_then (run_command sh (push_tag_command tag_name) True) (\<lambda>_.
     return ()))"

subsection \<open>Release Publisher\<close>

definition dict_index :: "json \<Rightarrow> string \<Rightarrow> exn + json" where
  \<comment> \<open>\<^verbatim>\<open>j[key]\<close> for a string key\<close>
  "dict_index j key =
     (case j of
        JObj kvs \<Rightarrow> (case map_of kvs key of Some v \<Rightarrow> Inr v | None \<Rightarrow> Inl (KeyError, key))
      | _ \<Rightarrow> Inl (TypeError, ''indices must be integers or the object is not subscriptable''))"

definition release_request :: "string \<Rightarrow> string \<Rightarrow> string \<Rightarrow> string \<Rightarrow> string \<Rightarrow> http_request" where
  "release_request repo tag name body token =
     \<lparr>req_method = ''POST'',
      req_url = ''https://api.github.com/repos/'' @ repo @ ''/releases'',
      req_headers = api_headers token,
      req_json = Some [(''tag_name'', JStr tag), (''name'', JStr name), (''body'', JStr body),
                       (''draft'', JBool False), (''prerelease'', JBool False)],
      req_files = None\<rparr>"

definition path_exists :: "string \<Rightarrow> world \<Rightarrow> (exn + bool) \<times> world" where
  \<comment> \<open>\<^verbatim>\<open>os.path.exists\<close>\<close>
  "path_exists path w = (Inr (files w path \<noteq> None), w)"

definition create_github_release ::
  "http_oracle \<Rightarrow> string \<Rightarrow> string \<Rightarrow> string \<Rightarrow> string \<Rightarrow> string option \<Rightarrow> string option
   \<Rightarrow> world \<Rightarrow> (exn + json) \<times> world" where
  \<comment> \<open>the result \<open>JNull\<close> is \<^verbatim>\<open>None\<close>\<close>
  "create_github_release net repo tag name body token asset_path =
     (case token of
        None \<Rightarrow> return JNull
      | Some tok \<Rightarrow>
     if tok = [] then return JNull
     else
     and_then (request net (release_request repo tag name body tok)) (\<lambda>response.
     if status_code response = 201 then
       (case response_json response of
          Inl e \<Rightarrow> raise e
        | Inr release_data \<Rightarrow>
       (case dict_index release_data ''html_url'' of
          Inl e \<Rightarrow> raise e
        | Inr html_url \<Rightarrow>
       (case asset_path of
          None \<Rightarrow> return html_url
        | Some path \<Rightarrow>
       if path = [] then return html_url
       else
       and_then (path_exists path) (\<lambda>exists.
       if \<not> exists then return html_url
       else
         (case dict_index release_data ''upload_url'' of
            Inl e \<Rightarrow> raise e
          | Inr upload_template \<Rightarrow>
         (case upload_template of
            JStr template \<Rightarrow>
              and_then
                (request net
                   \<lparr>req_method = ''POST'',
                    req_url = hd (split (CHR ''{'') template) @ ''?name='' @ basename path,
                    req_headers = [(''Authorization'', ''Bearer '' @ tok),
                                   (''Content-Type'', ''image/png'')],
                    req_json = None,
                    req_files = Some (basename path, path, ''image/png'')\<rparr>)
                (\<lambda>upload_response.
                   if status_code upload_response = 201 then
                     (case response_json upload_response of
                        Inl e \<Rightarrow> raise e
                      | Inr j \<Rightarrow>
                          (case dict_get j ''browser_download_url'' of
                             Inl e \<Rightarrow> raise e
                           | Inr download_url \<Rightarrow> return download_url))
                   else return html_url)
          | _ \<Rightarrow> raise (AttributeError, ''object has no attribute split'')))))))
     else return JNull))"

subsection \<open>Orchestrator\<close>

definition SHORTCUT_PATH :: string where
  "SHORTCUT_PATH = ''MessageDict.shortcut''"

definition url_prompt :: string where
  \<comment> \<open>the prompt for the link, without its line break and pictograph\<close>
  "url_prompt = ''Enter the new shortcut URL: ''"

lemma input_consumes:
  "input prompt w = (Inr l, w') \<Longrightarrow> length (stdin w') < length (stdin w)"
  by (auto simp: input_def split: list.splits)

lemma validate_url_stdin:
  "validate_url parse url w = (r, w') \<Longrightarrow> length (stdin w') \<le> length (stdin w)"
  by (auto simp: validate_url_def input_def split: if_splits sum.splits list.splits)

function acquire_link :: "(string \<Rightarrow> exn + parse_result) \<Rightarrow> world \<Rightarrow> (exn + string) \<times> world" where
  \<comment> \<open>the loop of step 2: ask until a link is accepted; the terminal running out
      ends it with \<^verbatim>\<open>EOFError\<close>\<close>
  "acquire_link parse w =
     (case input url_prompt w of
        (Inl e, w1) \<Rightarrow> (Inl e, w1)
      | (Inr line, w1) \<Rightarrow>
          let shortcut_url = strip line in
          if shortcut_url = [] then acquire_link parse w1
          else
            (case validate_url parse shortcut_url w1 of
               ((is_valid, error_msg), w2) \<Rightarrow>
                 if is_valid then (Inr shortcut_url, w2) else acquire_link parse w2))"
  by pat_completeness auto
termination
proof (relation "measure (\<lambda>(parse, w). length (stdin w))", goal_cases)
  case 1
  then show ?case by simp
next
  case prems: (2 parse w x1 w1 line)
  from prems(1,2) have "input url_prompt w = (Inr line, w1)" by simp
  from input_consumes [OF this] show ?case by simp
next
  case prems: (3 parse w x1 w1 line shortcut_url x w2 is_valid error_msg)
  from prems(1,2) have "input url_prompt w = (Inr line, w1)" by simp
  from input_consumes [OF this] have "length (stdin w1) < length (stdin w)" .
  moreover from prems(5) have "validate_url parse shortcut_url w1 = (x, w2)" by simp
  from validate_url_stdin [OF this] have "length (stdin w2) \<le> length (stdin w1)" .
  ultimately show ?case by simp
qed


definition version_prompt :: string where
  "version_prompt = ''Enter version name: ''"

definition tag_prompt :: string where
  "tag_prompt = ''Enter tag: ''"

definition changes_prompt :: string where
  "changes_prompt = ''Enter changes (commit message): ''"

definition named_temporary_file :: "env \<Rightarrow> world \<Rightarrow> (exn + string) \<times> world" where
  \<comment> \<open>\<^verbatim>\<open>tempfile.NamedTemporaryFile(delete=False, ...)\<close>, its name, and the close:
      an empty file\<close>
  "named_temporary_file E w =
     (case tmp_name E (files w) of
        Inl e \<Rightarrow> (Inl e, w)
      | Inr path \<Rightarrow> (Inr path, w\<lparr>files := (files w)(path \<mapsto> [])\<rparr>))"

definition remove_if_exists :: "string \<Rightarrow> world \<Rightarrow> (exn + unit) \<times> world" where
  \<comment> \<open>the clean-up at the end of \<^verbatim>\<open>main\<close>; whatever it raises is caught there\<close>
  "remove_if_exists path w = (Inr (), w\<lparr>files := (files w)(path := None)\<rparr>)"

definition token_set :: "string option \<Rightarrow> bool" where
  \<comment> \<open>\<^verbatim>\<open>if GITHUB_TOKEN\<close>\<close>
  "token_set token = (case token of None \<Rightarrow> False | Some tok \<Rightarrow> tok \<noteq> [])"

definition release_steps :: "env \<Rightarrow> string \<Rightarrow> string \<Rightarrow> world \<Rightarrow> (exn + unit) \<times> world" where
  \<comment> \<open>\<^verbatim>\<open>main\<close> from step 7 on\<close>
  "release_steps E repo qr_code_path =
     and_then (input version_prompt) (\<lambda>answer1.
     and_then (input tag_prompt) (\<lambda>answer2.
     and_then (input changes_prompt) (\<lambda>answer3.
     let version_name = strip answer1; tag = strip answer2; changes = strip answer3 in
     if version_name = [] \<or> tag = [] \<or> changes = [] then raise (SystemExit, ''1'')
     else
       let full_tag = version_name @ '' '' @ tag in
       and_then (commit_and_push (shell E) changes) (\<lambda>_.
       and_then (create_tag (shell E) full_tag) (\<lambda>_.
       and_then
         (if token_set (GITHUB_TOKEN E)
          then and_then (create_github_release (http E) repo full_tag full_tag changes
                           (GITHUB_TOKEN E) (Some qr_code_path)) (\<lambda>_. return ())
          else return ()) (\<lambda>_.
       remove_if_exists qr_code_path))))))"

definition main :: "env \<Rightarrow> world \<Rightarrow> (exn + unit) \<times> world" where
  "main E =
     and_then (pull_latest (shell E)) (\<lambda>_.
     and_then (acquire_link (urlparse E)) (\<lambda>shortcut_url.
     and_then (download_file (http E) shortcut_url SHORTCUT_PATH) (\<lambda>_.
     and_then (replace_readme_link (os_linesep E) shortcut_url 57) (\<lambda>_.
     and_then (named_temporary_file E) (\<lambda>qr_code_path.
     and_then (generate_qr_code (qr_image E) shortcut_url qr_code_path) (\<lambda>_.
     and_then (get_github_repo (shell E)) (\<lambda>repo.
     and_then
       (if token_set (GITHUB_TOKEN E)
        then and_then (upload_qr_to_github E repo (GITHUB_TOKEN E) qr_code_path ''main'')
               (\<lambda>qr_download_url.
                  case qr_download_url of
                    None \<Rightarrow> return ()
                  | Some u \<Rightarrow> if u = [] then return ()
                              else replace_readme_qr_code (os_linesep E) u 59)
        else return ()) (\<lambda>_.
     release_steps E repo qr_code_path))))))))"

section \<open>Sample surroundings\<close>

text \<open>Concrete parsers, shells and servers at which the theorems below are instantiated.\<close>

definition stub_urlparse :: "string \<Rightarrow> string \<Rightarrow> string \<Rightarrow> exn + parse_result" where
  \<comment> \<open>a parser that finds the given scheme and host in every string\<close>
  "stub_urlparse sch host u = Inr \<lparr>scheme = sch, netloc = host\<rparr>"

definition echo_shell :: "string \<Rightarrow> shell_oracle" where
  \<comment> \<open>a shell in which every command succeeds, prints the given text and touches no file\<close>
  "echo_shell out cmd tr fs = (Inr \<lparr>returncode = 0, stdout = out, stderr = []\<rparr>, fs)"

definition offline :: http_oracle where
  \<comment> \<open>no network: every request raises\<close>
  "offline rq tr = Inl (RequestException, ''connection failed'')"

definition no_qr :: "string \<Rightarrow> exn + string" where
  "no_qr t = Inr []"

definition sample_tmp :: "files \<Rightarrow> exn + string" where
  "sample_tmp fs = Inr ''/tmp/message_dict_qr_x.png''"

definition stub_server :: "int \<Rightarrow> json option \<Rightarrow> int \<Rightarrow> json option \<Rightarrow> http_oracle" where
  \<comment> \<open>answers a GET with the first status and body, any other request with the second\<close>
  "stub_server get_status get_body put_status put_body rq tr =
     Inr (if req_method rq = ''GET''
          then \<lparr>status_code = get_status, body_json = get_body, text_body = [], content = []\<rparr>
          else \<lparr>status_code = put_status, body_json = put_body, text_body = [], content = []\<rparr>)"

definition created_body :: "json option" where
  \<comment> \<open>a body that names a location of its own\<close>
  "created_body = Some (JObj [(''content'',
     JObj [(''download_url'', JStr ''https://elsewhere.example/qr.png'')])])"

definition sample_env :: "http_oracle \<Rightarrow> env" where
  "sample_env net =
     \<lparr>urlparse = stub_urlparse ''https'' ''www.icloud.com'', shell = echo_shell ''main'',
      http = net, b64encode = id, qr_image = no_qr, tmp_name = sample_tmp,
      os_linesep = [nl], GITHUB_TOKEN = Some ''tok''\<rparr>"

definition sample_world :: world where
  "sample_world = \<lparr>stdin = [], files = [''/tmp/qr.png'' \<mapsto> ''PNG''], trace = []\<rparr>"

definition prior_body :: "json option" where
  \<comment> \<open>the metadata of an object already stored, with its hash\<close>
  "prior_body = Some (JObj [(''name'', JStr ''qr.png''), (''sha'', JStr ''3d21ec53a331a6f037a91c368710b99387d012c1'')])"

definition after_branch_cmd :: world where
  "after_branch_cmd = sample_world\<lparr>trace := [Ran default_branch_cmd]\<rparr>"

definition sample_readme :: string where
  \<comment> \<open>a document of three lines, the second being the link line\<close>
  "sample_readme = ''# MessageDict'' @ [nl]
     @ ''**Install MessageDict:** https://old.example/x'' @ [nl]
     @ ''<img src='' @ [dq] @ ''https://old.example/qr.png'' @ [dq] @ '' alt='' @ [dq]
     @ ''MessageDict QR Code'' @ [dq] @ '' width='' @ [dq] @ ''200'' @ [dq] @ ''>'' @ [nl]"


definition readme_world :: "string \<Rightarrow> world" where
  "readme_world text = \<lparr>stdin = [], files = [README_PATH \<mapsto> text], trace = []\<rparr>"

definition escaped_link :: string where
  \<comment> \<open>a link with a backslash in its path\<close>
  "escaped_link = ''https://www.icloud.com/shortcuts/a'' @ [bs] @ ''q''"






lemmas sample_defs = sample_env_def sample_world_def stub_server_def created_body_def
  echo_shell_def detect_default_branch_def run_command_def subprocess_run_def read_file_def
  request_def response_json_def dict_get_def api_headers_def basename_def strip_def isspace_def
  Let_def

section \<open>Traces\<close>











section \<open>Properties\<close>

subsection \<open>Link Validator\<close>

text \<open>
  C8. Every string that starts with one of the two credential-token prefixes
  (\<^verbatim>\<open>github_pat_\<close>, \<^verbatim>\<open>ghp_\<close>) is rejected with the token diagnostic, whatever the
  URL parser would say about it, and the terminal is not touched.
\<close>

theorem validate_url_rejects_token:
  assumes "startswith url ''github_pat_'' \<or> startswith url ''ghp_''"
  shows "validate_url parse url w = ((False, Some token_message), w)"
proof -
  from assms have "url \<noteq> []"
    by (auto simp: startswith_def)
  with assms show ?thesis
    by (simp add: validate_url_def)
qed

theorem validate_url_rejects_token_witness:
  "startswith ''ghp_abc://www.icloud.com/shortcuts/x'' ''ghp_''
   \<and> validate_url (stub_urlparse ''https'' ''www.icloud.com'')
        ''ghp_abc://www.icloud.com/shortcuts/x'' \<lparr>stdin = [''y''], files = Map.empty, trace = []\<rparr>
      = ((False, Some token_message), \<lparr>stdin = [''y''], files = Map.empty, trace = []\<rparr>)"
proof -
  have h: "startswith ''ghp_abc://www.icloud.com/shortcuts/x'' ''ghp_''"
    by (simp add: startswith_def)
  show ?thesis
    using h validate_url_rejects_token [of "''ghp_abc://www.icloud.com/shortcuts/x''"] by simp
qed

text \<open>
  C1, as stated, does not hold: a string with a scheme and a host and without a
  token prefix that does not contain \<^verbatim>\<open>shortcuts\<close> makes the validator ask
  \<^verbatim>\<open>Continue anyway? (y/n)\<close>, and an answer other than \<^verbatim>\<open>y\<close> rejects it. Here the
  parser finds scheme \<^verbatim>\<open>https\<close> and host \<^verbatim>\<open>example.com\<close>, the user answers \<^verbatim>\<open>n\<close>.
\<close>

theorem validate_url_prompts_counterexample:
  "stub_urlparse ''https'' ''example.com'' ''https://example.com/x''
     = Inr \<lparr>scheme = ''https'', netloc = ''example.com''\<rparr>
   \<and> \<not> startswith ''https://example.com/x'' ''github_pat_''
   \<and> \<not> startswith ''https://example.com/x'' ''ghp_''
   \<and> validate_url (stub_urlparse ''https'' ''example.com'') ''https://example.com/x''
        \<lparr>stdin = [''n''], files = Map.empty, trace = []\<rparr>
     = ((False, Some ''URL validation cancelled by user''),
        \<lparr>stdin = [], files = Map.empty, trace = [Asked ''   Continue anyway? (y/n): '' ''n'']\<rparr>)"
  by (simp add: validate_url_def stub_urlparse_def startswith_def contains_def lower_def
      lower_char_def input_def strip_def isspace_def sublist_Cons_right char_of_def)

text \<open>
  C1, amended. A string in which the parser finds a scheme and a host, which has
  no token prefix and which contains \<^verbatim>\<open>shortcuts\<close> in any letter case, is
  accepted, and the terminal is not touched: nothing is asked, no line is read.
\<close>

theorem validate_url_accepts_shortcuts_url:
  assumes "parse url = Inr parsed" and "scheme parsed \<noteq> []" and "netloc parsed \<noteq> []"
    and "\<not> startswith url ''github_pat_''" and "\<not> startswith url ''ghp_''"
    and "contains ''shortcuts'' (lower url)"
  shows "validate_url parse url w = ((True, None), w)"
proof (cases "url = []")
  case True
  with assms(6) show ?thesis by (simp add: contains_def lower_def)
next
  case False
  with assms show ?thesis by (simp add: validate_url_def)
qed

theorem validate_url_accepts_shortcuts_url_witness:
  "stub_urlparse ''https'' ''www.icloud.com'' ''https://www.icloud.com/Shortcuts/abc''
     = Inr \<lparr>scheme = ''https'', netloc = ''www.icloud.com''\<rparr>
   \<and> \<not> startswith ''https://www.icloud.com/Shortcuts/abc'' ''github_pat_''
   \<and> \<not> startswith ''https://www.icloud.com/Shortcuts/abc'' ''ghp_''
   \<and> contains ''shortcuts'' (lower ''https://www.icloud.com/Shortcuts/abc'')
   \<and> validate_url (stub_urlparse ''https'' ''www.icloud.com'')
        ''https://www.icloud.com/Shortcuts/abc'' \<lparr>stdin = [], files = Map.empty, trace = []\<rparr>
     = ((True, None), \<lparr>stdin = [], files = Map.empty, trace = []\<rparr>)"
proof -
  have p: "stub_urlparse ''https'' ''www.icloud.com'' ''https://www.icloud.com/Shortcuts/abc''
           = Inr \<lparr>scheme = ''https'', netloc = ''www.icloud.com''\<rparr>"
    by (simp add: stub_urlparse_def)
  have t1: "\<not> startswith ''https://www.icloud.com/Shortcuts/abc'' ''github_pat_''"
    and t2: "\<not> startswith ''https://www.icloud.com/Shortcuts/abc'' ''ghp_''"
    by (simp_all add: startswith_def)
  have c: "contains ''shortcuts'' (lower ''https://www.icloud.com/Shortcuts/abc'')"
    by code_simp
  show ?thesis
    using p t1 t2 c validate_url_accepts_shortcuts_url
      [of "stub_urlparse ''https'' ''www.icloud.com''" "''https://www.icloud.com/Shortcuts/abc''",
       OF p _ _ t1 t2 c]
    by simp
qed

subsection \<open>Remote Metadata Resolver\<close>

lemma ssh_remote_search:
  "re_search repo_pattern_1 ''git@github.com:acme/widget.git''
   = Some \<lparr>before = ''git@'', matched = ''github.com:acme/widget.git'',
            captured = [(2, ''widget''), (1, ''acme'')], after = []\<rparr>"
  by code_simp

text \<open>
  C9. When \<^verbatim>\<open>git remote get-url origin\<close> prints \<^verbatim>\<open>git@github.com:acme/widget.git\<close>,
  the resolver returns \<^verbatim>\<open>acme/widget\<close>: the first pattern matches, its groups are
  \<^verbatim>\<open>acme\<close> and \<^verbatim>\<open>widget\<close>, and the \<^verbatim>\<open>.git\<close> ending is left outside group 2.
\<close>

theorem get_github_repo_ssh_remote:
  assumes "sh ''git remote get-url origin'' (trace w) (files w) = (Inr p, fs)"
    and "strip (stdout p) = ''git@github.com:acme/widget.git''"
  shows "fst (get_github_repo sh w) = Inr ''acme/widget''
         \<and> (\<exists>m. re_search repo_pattern_1 ''git@github.com:acme/widget.git'' = Some m
                \<and> group m 1 = ''acme'' \<and> group m 2 = ''widget'')"
  using assms
  by (simp add: get_github_repo_def run_command_def subprocess_run_def ssh_remote_search group_def)

theorem get_github_repo_ssh_remote_witness:
  "fst (get_github_repo (echo_shell (''git@github.com:acme/widget.git'' @ [CHR 0x0A]))
          \<lparr>stdin = [], files = Map.empty, trace = []\<rparr>)
   = Inr ''acme/widget''"
  using get_github_repo_ssh_remote
      [of "echo_shell (''git@github.com:acme/widget.git'' @ [CHR 0x0A])"
          "\<lparr>stdin = [], files = Map.empty, trace = []\<rparr>"
          "\<lparr>returncode = 0, stdout = ''git@github.com:acme/widget.git'' @ [CHR 0x0A], stderr = []\<rparr>"
          Map.empty]
  by (simp add: echo_shell_def strip_def isspace_def)


subsection \<open>Remote Asset Publisher\<close>

text \<open>
  C7. Whenever the upload returns a URL, that URL is
  \<^verbatim>\<open>https://raw.githubusercontent.com/<owner>/<repo>/<branch>/assets/<base name>\<close>:
  owner and repository name are the two parts of \<open>repo\<close> around its slash, the
  branch is the one found before any request is sent (the output of the
  default-branch command, or the \<open>branch\<close> argument when that is empty or
  fails), and the base name is that of the QR file. No answer of the server
  occurs in it.
\<close>

theorem upload_url_is_constructed:
  assumes "fst (upload_qr_to_github E repo token qr_path branch w) = Inr (Some u)"
  shows "\<exists>owner repo_name.
           split (CHR ''/'') repo = [owner, repo_name]
           \<and> u = ''https://raw.githubusercontent.com/'' @ owner @ ''/'' @ repo_name @ ''/''
                 @ fst (detect_default_branch (shell E) branch w)
                 @ ''/assets/'' @ basename qr_path"
  using assms
  by (auto simp: upload_qr_to_github_def Let_def
      split: option.splits sum.splits prod.splits if_splits list.splits)

theorem upload_url_is_constructed_witness:
  "fst (upload_qr_to_github (sample_env (stub_server 404 None 201 created_body)) ''acme/widget''
          (Some ''tok'') ''/tmp/qr.png'' ''master'' sample_world)
     = Inr (Some ''https://raw.githubusercontent.com/acme/widget/main/assets/qr.png'')
   \<and> (\<exists>owner repo_name.
           split (CHR ''/'') ''acme/widget'' = [owner, repo_name]
           \<and> ''https://raw.githubusercontent.com/acme/widget/main/assets/qr.png''
             = ''https://raw.githubusercontent.com/'' @ owner @ ''/'' @ repo_name @ ''/''
                 @ fst (detect_default_branch
                          (shell (sample_env (stub_server 404 None 201 created_body)))
                          ''master'' sample_world)
                 @ ''/assets/'' @ basename ''/tmp/qr.png'')"
proof -
  have run: "fst (upload_qr_to_github (sample_env (stub_server 404 None 201 created_body))
          ''acme/widget'' (Some ''tok'') ''/tmp/qr.png'' ''master'' sample_world)
     = Inr (Some ''https://raw.githubusercontent.com/acme/widget/main/assets/qr.png'')"
    by (simp add: upload_qr_to_github_def sample_defs)
  from upload_url_is_constructed [OF run] run show ?thesis
    by blast
qed


text \<open>
  C6. Let the QR file be readable and the preliminary GET be answered. If the
  answer has status 200 and is an object whose \<^verbatim>\<open>sha\<close> is a hash \<open>h\<close> (a value
  Python counts as true, such as a non-empty string), the PUT that follows carries
  \<^verbatim>\<open>sha\<close> = \<open>h\<close> in its body. If the status is not 200 (no prior object), the
  body of the PUT has no \<^verbatim>\<open>sha\<close> field.
\<close>

theorem upload_put_carries_prior_sha:
  assumes "token = Some tok" and "tok \<noteq> []"
    and "detect_default_branch (shell E) branch w = (b, w1)"
    and "read_file qr_path w1 = Inr data"
    and "http E \<lparr>req_method = ''GET'',
                   req_url = ''https://api.github.com/repos/'' @ repo @ ''/contents/assets/''
                             @ basename qr_path,
                   req_headers = api_headers tok, req_json = None, req_files = None\<rparr>
           (trace w1) = Inr r"
  shows "(\<forall>kvs h. status_code r = 200 \<and> body_json r = Some (JObj kvs)
                  \<and> map_of kvs ''sha'' = Some h \<and> truthy h
            \<longrightarrow> (\<exists>put d. last (trace (snd (upload_qr_to_github E repo token qr_path branch w)))
                             = Requested put
                         \<and> req_method put = ''PUT'' \<and> req_json put = Some d
                         \<and> map_of d ''sha'' = Some h))
       \<and> (status_code r \<noteq> 200
            \<longrightarrow> (\<exists>put d. last (trace (snd (upload_qr_to_github E repo token qr_path branch w)))
                             = Requested put
                         \<and> req_method put = ''PUT'' \<and> req_json put = Some d
                         \<and> map_of d ''sha'' = None))"
proof -
  define w' where "w' = snd (upload_qr_to_github E repo token qr_path branch w)"
  have with_sha: "\<exists>put d. last (trace w') = Requested put
                   \<and> req_method put = ''PUT'' \<and> req_json put = Some d \<and> map_of d ''sha'' = Some h"
    if "status_code r = 200" and "body_json r = Some (JObj kvs)"
      and "map_of kvs ''sha'' = Some h" and "truthy h" for kvs h
    using assms that unfolding w'_def
    by (simp add: upload_qr_to_github_def Let_def request_def response_json_def dict_get_def
        split: sum.split option.split list.split)
  have without: "\<exists>put d. last (trace w') = Requested put
                   \<and> req_method put = ''PUT'' \<and> req_json put = Some d \<and> map_of d ''sha'' = None"
    if "status_code r \<noteq> 200"
    using assms that unfolding w'_def
    by (simp add: upload_qr_to_github_def Let_def request_def response_json_def dict_get_def
        split: sum.split option.split list.split)
  from with_sha without show ?thesis
    unfolding w'_def by blast
qed


theorem upload_put_carries_prior_sha_witness:
  "(\<exists>put d. last (trace (snd (upload_qr_to_github
                  (sample_env (stub_server 200 prior_body 200 created_body))
                  ''acme/widget'' (Some ''tok'') ''/tmp/qr.png'' ''master'' sample_world)))
               = Requested put
            \<and> req_method put = ''PUT'' \<and> req_json put = Some d
            \<and> map_of d ''sha'' = Some (JStr ''3d21ec53a331a6f037a91c368710b99387d012c1''))
   \<and> (\<exists>put d. last (trace (snd (upload_qr_to_github
                  (sample_env (stub_server 404 None 201 created_body))
                  ''acme/widget'' (Some ''tok'') ''/tmp/qr.png'' ''master'' sample_world)))
               = Requested put
            \<and> req_method put = ''PUT'' \<and> req_json put = Some d
            \<and> map_of d ''sha'' = None)"
proof -
  have b: "detect_default_branch (shell (sample_env net)) ''master'' sample_world
           = (''main'', after_branch_cmd)" for net
    by (simp add: sample_defs after_branch_cmd_def)
  have f: "read_file ''/tmp/qr.png'' after_branch_cmd = Inr ''PNG''"
    by (simp add: sample_defs after_branch_cmd_def)
  have g: "http (sample_env (stub_server gs gb ps pb))
             \<lparr>req_method = ''GET'',
              req_url = ''https://api.github.com/repos/'' @ ''acme/widget'' @ ''/contents/assets/''
                        @ basename ''/tmp/qr.png'',
              req_headers = api_headers ''tok'', req_json = None, req_files = None\<rparr>
             (trace after_branch_cmd)
           = Inr \<lparr>status_code = gs, body_json = gb, text_body = [], content = []\<rparr>"
    for gs gb ps pb
    by (simp add: sample_env_def stub_server_def)
  have t: "''tok'' \<noteq> []" by simp
  show ?thesis
    using upload_put_carries_prior_sha [OF refl t b f g, of 200 prior_body 200 created_body]
          upload_put_carries_prior_sha [OF refl t b f g, of 404 None 201 created_body]
    by (simp add: prior_body_def)
qed






subsection \<open>Document Patcher\<close>

lemma concat_readlines: "concat (readlines t) = t"
  by (induction t) (auto split: list.splits)

lemma universal_newlines_id: "cr \<notin> set t \<Longrightarrow> universal_newlines t = t"
  by (induction t rule: universal_newlines.induct) auto

lemma write_newlines_lf: "write_newlines [nl] s = s"
  by (induction s) (auto simp: write_newlines_def)

lemma replace_line_cases:
  "replace_line f n i ls =
     (if i < n \<and> n \<le> i + int (length ls)
      then (case f (ls ! nat (n - i - 1)) of
              Inl e \<Rightarrow> Inl e
            | Inr l' \<Rightarrow> Inr (ls[nat (n - i - 1) := l']))
      else Inr ls)"
proof (induction ls arbitrary: i)
  case Nil
  show ?case by auto
next
  case (Cons l ls)
  show ?case
  proof (cases "i + 1 = n")
    case True
    then show ?thesis by (simp split: sum.splits)
  next
    case False
    then have "nat (n - i - 1) = Suc (nat (n - (i + 1) - 1))" if "i < n"
      using that by simp
    with False show ?thesis
      by (auto simp: Cons.IH split: sum.splits)
  qed
qed


lemma sub_from_unmatched_here:
  "match_here r must_advance s = None \<Longrightarrow>
   sub_from r items must_advance s = (case s of [] \<Rightarrow> [] | c # cs \<Rightarrow> c # sub_from r items False cs)"
  by (subst sub_from.simps) simp

lemma search_from_None:
  "search_from r pre s = None \<Longrightarrow> sub_from r items False s = s"
proof (induction s arbitrary: pre)
  case Nil
  then have "match_here r False [] = None"
    by (simp split: option.splits prod.splits)
  then show ?case
    by (simp add: sub_from_unmatched_here)
next
  case (Cons c cs)
  from Cons.prems have "match_here r False (c # cs) = None"
    and "search_from r (pre @ [c]) cs = None"
    by (simp_all split: option.splits prod.splits)
  with Cons.IH show ?case
    by (simp add: sub_from_unmatched_here)
qed


lemma first_line_unmatched:
  "re_search link_pattern (''# MessageDict'' @ [nl]) = None"
  by code_simp





lemma sample_readme_lines:
  "readlines (universal_newlines sample_readme) =
     [''# MessageDict'' @ [nl],
      ''**Install MessageDict:** https://old.example/x'' @ [nl],
      ''<img src='' @ [dq] @ ''https://old.example/qr.png'' @ [dq] @ '' alt='' @ [dq]
       @ ''MessageDict QR Code'' @ [dq] @ '' width='' @ [dq] @ ''200'' @ [dq] @ ''>'' @ [nl]]"
  by code_simp

lemma link_line_example:
  "re_sub link_pattern (link_template ''https://new.example/y'')
     (''**Install MessageDict:** https://old.example/x'' @ [nl])
   = Inr (''**Install MessageDict:** https://new.example/y'' @ [nl])"
  by code_simp

lemma link_scenario:
  "replace_readme_link [nl] ''https://new.example/y'' 2 (readme_world sample_readme)
   = (Inr (), readme_world (''# MessageDict'' @ [nl]
     @ ''**Install MessageDict:** https://new.example/y'' @ [nl]
     @ ''<img src='' @ [dq] @ ''https://old.example/qr.png'' @ [dq] @ '' alt='' @ [dq]
     @ ''MessageDict QR Code'' @ [dq] @ '' width='' @ [dq] @ ''200'' @ [dq] @ ''>'' @ [nl]))"
  by (simp add: replace_readme_link_def patch_document_def read_text_def read_file_def
      readme_world_def write_text_def write_newlines_lf
      sample_readme_lines [simplified] link_line_example [simplified] writelines_def)


lemma re_sub_unmatched:
  assumes "re_search r s = None" and "parse_template (ngroups r) repl = Inr items"
  shows "re_sub r repl s = Inr s"
  using assms search_from_None [of r "[]" s items] by (simp add: re_sub_def re_search_def)

lemma patch_document_unmatched:
  assumes readme: "files w README_PATH = Some text" and lf: "cr \<notin> set text"
    and line: "1 \<le> n" "n \<le> int (length (readlines text))"
    and unmatched: "re_search pattern (readlines text ! nat (n - 1)) = None"
    and template: "parse_template (ngroups pattern) repl = Inr items"
  shows "patch_document [nl] pattern repl n w = (Inr (), w)"
proof -
  have "re_sub pattern repl (readlines text ! nat (n - 1)) = Inr (readlines text ! nat (n - 1))"
    using unmatched template by (rule re_sub_unmatched)
  with line have "replace_line (re_sub pattern repl) n 0 (readlines text) = Inr (readlines text)"
    by (simp add: replace_line_cases)
  moreover have "(files w)(README_PATH \<mapsto> text) = files w"
    using readme by (rule map_upd_triv)
  ultimately show ?thesis
    using readme lf
    by (simp add: patch_document_def read_text_def read_file_def write_text_def
        write_newlines_lf universal_newlines_id writelines_def concat_readlines)
qed

lemma patch_document_no_such_line:
  assumes "files w README_PATH = Some text" and "cr \<notin> set text"
    and "n < 1 \<or> int (length (readlines text)) < n"
  shows "patch_document [nl] pattern repl n w = (Inr (), w)"
proof -
  from assms(3) have "replace_line (re_sub pattern repl) n 0 (readlines text) = Inr (readlines text)"
    by (auto simp: replace_line_cases)
  moreover have "(files w)(README_PATH \<mapsto> text) = files w"
    using assms(1) by (rule map_upd_triv)
  ultimately show ?thesis
    using assms(1,2)
    by (simp add: patch_document_def read_text_def read_file_def write_text_def
        write_newlines_lf universal_newlines_id writelines_def concat_readlines)
qed

text \<open>
  The two lemmas above are the silent no-op: with a replacement that is a
  well-formed template, on a document without carriage returns and a platform
  whose line separator is LF, a targeted line that the pattern does not match (or
  a line number outside the document) leaves the world as it was and raises
  nothing.
\<close>

lemma escaped_link_template:
  "parse_template (ngroups link_pattern) (link_template escaped_link)
   = Inl (TemplateError, ''bad escape'')"
  by code_simp

text \<open>
  C5. The replacement is pasted into the template without escaping, and
  \<^verbatim>\<open>re.sub\<close> compiles the template before it searches. So a replacement with a
  backslash that is no valid escape raises even when the targeted line does not
  match: here the link ends in \<^verbatim>\<open>a\q\<close> and line 1 is a heading.
\<close>

theorem replace_readme_link_raises_on_unmatched_line:
  "re_search link_pattern (readlines (universal_newlines sample_readme) ! 0) = None
   \<and> replace_readme_link linesep escaped_link 1 (readme_world sample_readme)
     = (Inl (TemplateError, ''bad escape''), readme_world sample_readme)"
proof -
  have "re_sub link_pattern (link_template escaped_link) l = Inl (TemplateError, ''bad escape'')"
    for l
    by (simp only: re_sub_def escaped_link_template sum.case)
  then show ?thesis
    by (simp add: replace_readme_link_def patch_document_def read_text_def read_file_def
        readme_world_def sample_readme_lines [simplified] first_line_unmatched [simplified])
qed

subsection \<open>Orchestrator\<close>

















declare acquire_link.simps [simp del]







































end
